theory Spec2Isabelle
  imports Complex_Main
begin

section \<open>Python values\<close>

text \<open>
  The exceptions the modelled code can raise. \<open>UnsupportedCriterionError\<close> is the class
  declared in \<^verbatim>\<open>filters.py\<close>; the others are Python's built-in ones.
\<close>

datatype error =
    UnsupportedCriterionError
  | AttributeError
  | KeyError
  | TypeError
  | ValueError

text \<open>
  A Python float: not-a-number, the two infinities, or a finite value, kept as the real
  number that the binary64 value denotes. The sign of a zero is not kept; no operation
  modelled here tells the two zeros apart.
\<close>

datatype pyfloat = NaN | NegInf | Flt real | PosInf

text \<open>\<^verbatim>\<open>datetime.date\<close> and a naive \<^verbatim>\<open>datetime.datetime\<close>.\<close>

datatype date = Date (year: int) (month: int) (day: int)

datatype datetime =
  Datetime (date_part: date) (hour: int) (minute: int) (second: int) (microsecond: int)

text \<open>\<^verbatim>\<open>datetime.date()\<close>: the calendar day, the time of day dropped.\<close>

definition datetime_date :: "datetime \<Rightarrow> date" where
  "datetime_date t = date_part t"

text \<open>
  The scalar values that attributes and filter reference values take. Python's \<^verbatim>\<open>None\<close>
  as a value is \<open>VNone\<close>; an argument that may be \<^verbatim>\<open>None\<close> is an \<open>option\<close>.
\<close>

datatype pyval =
    VNone
  | VBool bool
  | VInt int
  | VFloat pyfloat
  | VStr string
  | VDate date
  | VDatetime datetime

text \<open>The comparators of the \<^verbatim>\<open>operator\<close> module that \<^verbatim>\<open>create_filters\<close> uses.\<close>

datatype cmp_op = Op_eq | Op_ge | Op_le

subsection \<open>Comparison\<close>

text \<open>IEEE comparison: every comparison with not-a-number is false.\<close>

fun float_le :: "pyfloat \<Rightarrow> pyfloat \<Rightarrow> bool" where
  "float_le NaN _ = False"
| "float_le _ NaN = False"
| "float_le NegInf _ = True"
| "float_le _ PosInf = True"
| "float_le (Flt x) (Flt y) = (x \<le> y)"
| "float_le (Flt x) NegInf = False"
| "float_le PosInf (Flt y) = False"
| "float_le PosInf NegInf = False"

fun float_eq :: "pyfloat \<Rightarrow> pyfloat \<Rightarrow> bool" where
  "float_eq NaN _ = False"
| "float_eq _ NaN = False"
| "float_eq x y = (x = y)"

text \<open>
  \<^verbatim>\<open>bool\<close>, \<^verbatim>\<open>int\<close> and \<^verbatim>\<open>float\<close> compare with one another by numeric value
  (\<^verbatim>\<open>True\<close> is 1); the comparison of an \<^verbatim>\<open>int\<close> with a \<^verbatim>\<open>float\<close> is exact.
\<close>

fun number_of :: "pyval \<Rightarrow> pyfloat option" where
  "number_of (VBool b) = Some (Flt (if b then 1 else 0))"
| "number_of (VInt i) = Some (Flt (of_int i))"
| "number_of (VFloat f) = Some f"
| "number_of _ = None"

fun date_le :: "date \<Rightarrow> date \<Rightarrow> bool" where
  "date_le (Date y1 m1 d1) (Date y2 m2 d2) =
     (y1 < y2 \<or> (y1 = y2 \<and> (m1 < m2 \<or> (m1 = m2 \<and> d1 \<le> d2))))"

fun datetime_le :: "datetime \<Rightarrow> datetime \<Rightarrow> bool" where
  "datetime_le (Datetime d1 h1 mi1 s1 us1) (Datetime d2 h2 mi2 s2 us2) =
     (if d1 \<noteq> d2 then date_le d1 d2
      else h1 < h2 \<or> (h1 = h2 \<and> (mi1 < mi2 \<or> (mi1 = mi2 \<and>
           (s1 < s2 \<or> (s1 = s2 \<and> us1 \<le> us2))))))"

text \<open>Strings order lexicographically by character code.\<close>

fun str_le :: "string \<Rightarrow> string \<Rightarrow> bool" where
  "str_le [] _ = True"
| "str_le (c # cs) [] = False"
| "str_le (c # cs) (d # ds) =
     ((of_char c :: nat) < of_char d \<or> (c = d \<and> str_le cs ds))"

text \<open>
  \<^verbatim>\<open>operator.eq(a, b)\<close>, \<^verbatim>\<open>operator.ge(a, b)\<close> and \<^verbatim>\<open>operator.le(a, b)\<close> on these
  values. Values of unrelated types are unequal, and ordering them raises
  \<^verbatim>\<open>TypeError\<close>; a \<^verbatim>\<open>date\<close> and a \<^verbatim>\<open>datetime\<close> are unrelated in this sense.
\<close>

fun same_kind_le :: "pyval \<Rightarrow> pyval \<Rightarrow> bool option" where
  "same_kind_le (VStr a) (VStr b) = Some (str_le a b)"
| "same_kind_le (VDate a) (VDate b) = Some (date_le a b)"
| "same_kind_le (VDatetime a) (VDatetime b) = Some (datetime_le a b)"
| "same_kind_le _ _ = None"

definition py_compare :: "cmp_op \<Rightarrow> pyval \<Rightarrow> pyval \<Rightarrow> error + bool" where
  "py_compare c a b =
     (case (number_of a, number_of b) of
        (Some x, Some y) \<Rightarrow>
          Inr (case c of Op_eq \<Rightarrow> float_eq x y | Op_ge \<Rightarrow> float_le y x | Op_le \<Rightarrow> float_le x y)
      | _ \<Rightarrow>
          (case c of
             Op_eq \<Rightarrow> Inr (a = b)
           | Op_ge \<Rightarrow> (case same_kind_le b a of Some r \<Rightarrow> Inr r | None \<Rightarrow> Inl TypeError)
           | Op_le \<Rightarrow> (case same_kind_le a b of Some r \<Rightarrow> Inr r | None \<Rightarrow> Inl TypeError)))"

section \<open>The records of \<^verbatim>\<open>models.py\<close>\<close>

text \<open>
  \<open>approaches\<close> holds references into the store's collection of approaches. A value
  read by \<^verbatim>\<open>csv.DictReader\<close> is a string, or \<^verbatim>\<open>None\<close> for a column that a short
  row lacks, hence the optional designation.
\<close>

record near_earth_object =
  designation :: "string option"
  name :: "string option"
  diameter :: pyfloat
  hazardous :: bool
  approaches :: "nat list"

text \<open>\<open>p_designation\<close> is the private attribute \<^verbatim>\<open>_designation\<close>.\<close>

record close_approach =
  p_designation :: string
  time :: datetime
  distance :: pyfloat
  velocity :: pyfloat
  neo :: "near_earth_object option"

section \<open>Attribute filters (\<^verbatim>\<open>filters.py\<close>)\<close>

text \<open>
  An instance of \<^verbatim>\<open>AttributeFilter\<close> or of its subclass \<^verbatim>\<open>GetAttribute\<close>: the class
  decides which \<^verbatim>\<open>get\<close> runs, the two fields are what \<^verbatim>\<open>__init__\<close> stores.
\<close>

datatype filter_class = AttributeFilter_class | GetAttribute_class

record attribute_filter =
  cls :: filter_class
  f_op :: cmp_op
  f_value :: pyval

definition AttributeFilter :: "cmp_op \<Rightarrow> pyval \<Rightarrow> attribute_filter" where
  "AttributeFilter c v = \<lparr>cls = AttributeFilter_class, f_op = c, f_value = v\<rparr>"

text \<open>\<^verbatim>\<open>GetAttribute.__init__(self, op, value, attr)\<close> calls the parent's constructor with
  \<^verbatim>\<open>op\<close> and \<^verbatim>\<open>value\<close> and does nothing with \<^verbatim>\<open>attr\<close>.\<close>

definition GetAttribute :: "cmp_op \<Rightarrow> pyval \<Rightarrow> string \<Rightarrow> attribute_filter" where
  "GetAttribute c v attr = (AttributeFilter c v)\<lparr>cls := GetAttribute_class\<rparr>"

text \<open>
  The object that \<^verbatim>\<open>getattr\<close> is applied to: the approach, its linked object, or
  \<^verbatim>\<open>None\<close> when the approach has not been linked.
\<close>

datatype pyobj = Obj_approach close_approach | Obj_neo near_earth_object | Obj_None

text \<open>
  \<^verbatim>\<open>getattr(obj, attr)\<close> for the scalar data attributes that the constructors set. The
  attributes that hold objects (\<^verbatim>\<open>neo\<close>, \<^verbatim>\<open>approaches\<close>), the properties and the methods
  are not values of \<open>pyval\<close>; the model answers \<^verbatim>\<open>AttributeError\<close> for them as for a name
  the object lacks.
\<close>

definition getattr :: "pyobj \<Rightarrow> string \<Rightarrow> error + pyval" where
  "getattr obj attr =
     (case obj of
        Obj_None \<Rightarrow> Inl AttributeError
      | Obj_approach a \<Rightarrow>
          (if attr = ''_designation'' then Inr (VStr (p_designation a))
           else if attr = ''time'' then Inr (VDatetime (time a))
           else if attr = ''distance'' then Inr (VFloat (distance a))
           else if attr = ''velocity'' then Inr (VFloat (velocity a))
           else Inl AttributeError)
      | Obj_neo n \<Rightarrow>
          (if attr = ''designation''
             then Inr (case designation n of None \<Rightarrow> VNone | Some s \<Rightarrow> VStr s)
           else if attr = ''name''
             then Inr (case name n of None \<Rightarrow> VNone | Some s \<Rightarrow> VStr s)
           else if attr = ''diameter'' then Inr (VFloat (diameter n))
           else if attr = ''hazardous'' then Inr (VBool (hazardous n))
           else Inl AttributeError))"

text \<open>\<^verbatim>\<open>res.date()\<close>: only a \<^verbatim>\<open>datetime\<close> has the method among these values.\<close>

definition call_date :: "pyval \<Rightarrow> error + pyval" where
  "call_date res = (case res of VDatetime t \<Rightarrow> Inr (VDate (datetime_date t))
                               | _ \<Rightarrow> Inl AttributeError)"

definition approach_neo :: "close_approach \<Rightarrow> pyobj" where
  "approach_neo approach = (case neo approach of None \<Rightarrow> Obj_None | Some n \<Rightarrow> Obj_neo n)"

text \<open>\<^verbatim>\<open>GetAttribute.get(cls, approach, attr_interest)\<close>.\<close>

definition GetAttribute_get :: "close_approach \<Rightarrow> string \<Rightarrow> error + pyval" where
  "GetAttribute_get approach attr_interest =
     (let obj = (if attr_interest \<in> set [''hazardous'', ''diameter'']
                 then approach_neo approach else Obj_approach approach)
      in case getattr obj attr_interest of
           Inl e \<Rightarrow> Inl e
         | Inr res \<Rightarrow> (if attr_interest = ''time'' then call_date res else Inr res))"

text \<open>\<^verbatim>\<open>AttributeFilter.get\<close> raises; \<^verbatim>\<open>self.get\<close> is looked up on the instance's class.\<close>

definition AttributeFilter_get :: "close_approach \<Rightarrow> string \<Rightarrow> error + pyval" where
  "AttributeFilter_get approach attr_interest = Inl UnsupportedCriterionError"

definition get :: "attribute_filter \<Rightarrow> close_approach \<Rightarrow> string \<Rightarrow> error + pyval" where
  "get self approach attr_interest =
     (case cls self of
        AttributeFilter_class \<Rightarrow> AttributeFilter_get approach attr_interest
      | GetAttribute_class \<Rightarrow> GetAttribute_get approach attr_interest)"

text \<open>\<^verbatim>\<open>AttributeFilter.__call__(self, approach, attr_interest)\<close>.\<close>

definition call :: "attribute_filter \<Rightarrow> close_approach \<Rightarrow> string \<Rightarrow> error + bool" where
  "call self approach attr_interest =
     (case get self approach attr_interest of
        Inl e \<Rightarrow> Inl e
      | Inr x \<Rightarrow> py_compare (f_op self) x (f_value self))"

subsection \<open>\<^verbatim>\<open>create_filters\<close>\<close>

text \<open>A dictionary in insertion order; \<^verbatim>\<open>d[k]\<close> raises \<^verbatim>\<open>KeyError\<close> for a missing key.\<close>

fun getitem :: "(string \<times> 'v) list \<Rightarrow> string \<Rightarrow> error + 'v" where
  "getitem [] k = Inl KeyError"
| "getitem ((k', v) # d) k = (if k' = k then Inr v else getitem d k)"

definition mapping_param :: "(string \<times> string) list" where
  "mapping_param =
     [(''date'', ''time''), (''start_date'', ''time''), (''end_date'', ''time''),
      (''distance_min'', ''distance''), (''distance_max'', ''distance''),
      (''velocity_min'', ''velocity''), (''velocity_max'', ''velocity''),
      (''diameter_min'', ''diameter''), (''diameter_max'', ''diameter''),
      (''hazardous'', ''hazardous'')]"

text \<open>\<^verbatim>\<open>{k: v for k, v in arg_dict.items() if v is not None}\<close>\<close>

fun not_None_items :: "(string \<times> pyval option) list \<Rightarrow> (string \<times> pyval) list" where
  "not_None_items [] = []"
| "not_None_items ((k, None) # d) = not_None_items d"
| "not_None_items ((k, Some v) # d) = (k, v) # not_None_items d"

text \<open>\<^verbatim>\<open>[mapping_param[arg] for arg in arg_dict]\<close>\<close>

fun attrs_for :: "(string \<times> pyval) list \<Rightarrow> error + string list" where
  "attrs_for [] = Inr []"
| "attrs_for ((arg, v) # d) =
     (case getitem mapping_param arg of
        Inl e \<Rightarrow> Inl e
      | Inr attr \<Rightarrow> (case attrs_for d of Inl e \<Rightarrow> Inl e | Inr attrs \<Rightarrow> Inr (attr # attrs)))"

text \<open>\<^verbatim>\<open>res.append(GetAttribute(op, val, mapping_param[arg]))\<close>\<close>

definition append_GetAttribute ::
  "attribute_filter list \<Rightarrow> cmp_op \<Rightarrow> pyval \<Rightarrow> string \<Rightarrow> error + attribute_filter list" where
  "append_GetAttribute res c val arg =
     (case getitem mapping_param arg of
        Inl e \<Rightarrow> Inl e
      | Inr attr \<Rightarrow> Inr (res @ [GetAttribute c val attr]))"

text \<open>The body of the loop over \<^verbatim>\<open>arg_dict.items()\<close>, in the order of its branches.\<close>

definition filter_for ::
  "attribute_filter list \<Rightarrow> string \<Rightarrow> pyval \<Rightarrow> error + attribute_filter list" where
  "filter_for res arg val =
     (if arg = ''distance_min'' then append_GetAttribute res Op_ge val arg
      else if arg = ''distance_max'' then append_GetAttribute res Op_le val arg
      else if arg = ''velocity_min'' then append_GetAttribute res Op_ge val arg
      else if arg = ''velocity_max'' then append_GetAttribute res Op_le val arg
      else if arg = ''date'' then append_GetAttribute res Op_eq val arg
      else if arg = ''start_date'' then append_GetAttribute res Op_ge val arg
      else if arg = ''end_date'' then append_GetAttribute res Op_le val arg
      else if arg = ''hazardous'' then append_GetAttribute res Op_eq val arg
      else if arg = ''diameter_min'' then append_GetAttribute res Op_ge val arg
      else if arg = ''diameter_max'' then append_GetAttribute res Op_le val arg
      else Inr res)"

fun filters_loop ::
  "(string \<times> pyval) list \<Rightarrow> attribute_filter list \<Rightarrow> error + attribute_filter list" where
  "filters_loop [] res = Inr res"
| "filters_loop ((arg, val) # d) res =
     (case filter_for res arg val of
        Inl e \<Rightarrow> Inl e
      | Inr res' \<Rightarrow> filters_loop d res')"

text \<open>\<^verbatim>\<open>locals()\<close> on entry: the ten parameters, in the order of the signature.\<close>

definition create_filters_locals ::
  "pyval option \<Rightarrow> pyval option \<Rightarrow> pyval option \<Rightarrow> pyval option \<Rightarrow> pyval option \<Rightarrow>
   pyval option \<Rightarrow> pyval option \<Rightarrow> pyval option \<Rightarrow> pyval option \<Rightarrow> pyval option \<Rightarrow>
   (string \<times> pyval option) list" where
  "create_filters_locals =
     (\<lambda>date start_date end_date distance_min distance_max
        velocity_min velocity_max diameter_min diameter_max hazardous.
     [(''date'', date), (''start_date'', start_date), (''end_date'', end_date),
      (''distance_min'', distance_min), (''distance_max'', distance_max),
      (''velocity_min'', velocity_min), (''velocity_max'', velocity_max),
      (''diameter_min'', diameter_min), (''diameter_max'', diameter_max),
      (''hazardous'', hazardous)])"

definition create_filters ::
  "pyval option \<Rightarrow> pyval option \<Rightarrow> pyval option \<Rightarrow> pyval option \<Rightarrow> pyval option \<Rightarrow>
   pyval option \<Rightarrow> pyval option \<Rightarrow> pyval option \<Rightarrow> pyval option \<Rightarrow> pyval option \<Rightarrow>
   error + (attribute_filter list \<times> string list)" where
  "create_filters =
     (\<lambda>date start_date end_date distance_min distance_max
        velocity_min velocity_max diameter_min diameter_max hazardous.
      let arg_dict = not_None_items
            (create_filters_locals date start_date end_date distance_min distance_max
               velocity_min velocity_max diameter_min diameter_max hazardous)
      in case attrs_for arg_dict of
           Inl e \<Rightarrow> Inl e
         | Inr attr_of_interest \<Rightarrow>
             (if length arg_dict = 0 then Inr ([], [])
              else (case filters_loop arg_dict [] of
                      Inl e \<Rightarrow> Inl e
                    | Inr res \<Rightarrow> Inr (res, attr_of_interest))))"

subsection \<open>\<^verbatim>\<open>limit\<close>\<close>

text \<open>
  \<^verbatim>\<open>sys.maxsize\<close> of a 64-bit CPython. \<^verbatim>\<open>itertools.islice(iterator, stop)\<close> accepts
  \<^verbatim>\<open>None\<close> or an integer with \<^verbatim>\<open>0 <= stop <= sys.maxsize\<close> and raises
  \<^verbatim>\<open>ValueError\<close> for any other; the items it then yields are the first \<^verbatim>\<open>stop\<close> ones.
\<close>

definition sys_maxsize :: int where
  "sys_maxsize = 2 ^ 63 - 1"

definition islice :: "'a list \<Rightarrow> int option \<Rightarrow> error + 'a list" where
  "islice iterator stop =
     (case stop of
        None \<Rightarrow> Inr iterator
      | Some k \<Rightarrow> (if 0 \<le> k \<and> k \<le> sys_maxsize then Inr (take (nat k) iterator)
                   else Inl ValueError))"

definition limit :: "'a list \<Rightarrow> int option \<Rightarrow> error + 'a list" where
  "limit iterator n = (let n = (if n = Some 0 then None else n) in islice iterator n)"

section \<open>Constructing and serializing objects (\<^verbatim>\<open>models.py\<close>)\<close>

subsection \<open>The built-in \<^verbatim>\<open>float\<close> on a string\<close>

text \<open>
  \<^verbatim>\<open>float\<close> is Python's, not the repository's. Its value is written out where it is
  plain: \<^verbatim>\<open>float('nan')\<close> is not-a-number, and an optional sign followed by one to fifteen
  ASCII digits denotes that whole number, which is below \<open>10 ^ 15\<close> and so a binary64 value
  that no rounding changes. A negative zero is left out, a \<open>pyfloat\<close> not keeping the sign
  of a zero. On every other string (a fraction, an exponent, white space, underscores, the
  infinities, digits outside ASCII, a number that rounds or overflows, a string that raises
  \<^verbatim>\<open>ValueError\<close>) \<^verbatim>\<open>float\<close> is what the parameter \<open>float_elsewhere\<close> says; the results
  below hold for every value of that parameter.
\<close>

definition is_digit :: "char \<Rightarrow> bool" where
  "is_digit c = (48 \<le> (of_char c :: nat) \<and> (of_char c :: nat) \<le> 57)"

definition digit_value :: "char \<Rightarrow> nat" where
  "digit_value c = of_char c - 48"

definition nat_of_digits :: "nat list \<Rightarrow> nat" where
  "nat_of_digits ds = foldl (\<lambda>a d. 10 * a + d) 0 ds"

definition whole_number :: "string \<Rightarrow> int option" where
  "whole_number s =
     (let (neg, ds) =
            (case s of
               [] \<Rightarrow> (False, [])
             | c # cs \<Rightarrow> (if c = CHR ''-'' then (True, cs)
                          else if c = CHR ''+'' then (False, cs)
                          else (False, s)))
      in if ds \<noteq> [] \<and> length ds \<le> 15 \<and> list_all is_digit ds
         then (let k = nat_of_digits (map digit_value ds)
               in if neg then (if k = 0 then None else Some (- int k)) else Some (int k))
         else None)"

definition py_float :: "(string \<Rightarrow> error + pyfloat) \<Rightarrow> string \<Rightarrow> error + pyfloat" where
  "py_float float_elsewhere s =
     (if s = ''nan'' then Inr NaN
      else (case whole_number s of
              Some k \<Rightarrow> Inr (Flt (of_int k))
            | None \<Rightarrow> float_elsewhere s))"

subsection \<open>\<^verbatim>\<open>NearEarthObject\<close>\<close>

text \<open>\<^verbatim>\<open>len(x)\<close> and \<^verbatim>\<open>float(x)\<close> for a value of a row: \<^verbatim>\<open>None\<close> raises
  \<^verbatim>\<open>TypeError\<close> in both.\<close>

definition len :: "string option \<Rightarrow> error + nat" where
  "len x = (case x of None \<Rightarrow> Inl TypeError | Some s \<Rightarrow> Inr (length s))"

definition float_of ::
  "(string \<Rightarrow> error + pyfloat) \<Rightarrow> string option \<Rightarrow> error + pyfloat" where
  "float_of float_elsewhere x =
     (case x of None \<Rightarrow> Inl TypeError | Some s \<Rightarrow> py_float float_elsewhere s)"

text \<open>
  \<^verbatim>\<open>NearEarthObject.__init__(self, **info)\<close>. The keyword arguments are a row of
  \<^verbatim>\<open>csv.DictReader\<close>, a dictionary from column names to strings (or \<^verbatim>\<open>None\<close>). The four
  assignments run in the order of the source, each subscript \<^verbatim>\<open>info[...]\<close> raising
  \<^verbatim>\<open>KeyError\<close> for a missing column; \<open>and_then\<close> passes the first exception on. The
  first argument is the parameter of \<open>py_float\<close>.
\<close>

definition and_then :: "error + 'a \<Rightarrow> ('a \<Rightarrow> error + 'b) \<Rightarrow> error + 'b" where
  "and_then r f = (case r of Inl e \<Rightarrow> Inl e | Inr x \<Rightarrow> f x)"

definition NearEarthObject_init ::
  "(string \<Rightarrow> error + pyfloat) \<Rightarrow> (string \<times> string option) list
   \<Rightarrow> error + near_earth_object" where
  "NearEarthObject_init float_elsewhere info =
     and_then (getitem info ''pdes'') (\<lambda>pdes.
     and_then (getitem info ''name'') (\<lambda>nm.
     and_then (len nm) (\<lambda>name_len.
     and_then (if name_len = 0 then Inr None else getitem info ''name'') (\<lambda>name_value.
     and_then (getitem info ''diameter'') (\<lambda>dm.
     and_then (len dm) (\<lambda>diameter_len.
     and_then (if diameter_len = 0 then py_float float_elsewhere ''nan''
               else and_then (getitem info ''diameter'') (float_of float_elsewhere))
       (\<lambda>diameter_value.
     and_then (getitem info ''pha'') (\<lambda>pha.
       Inr \<lparr>designation = pdes, name = name_value, diameter = diameter_value,
            hazardous = (if pha = Some ''Y'' then True else False),
            approaches = []\<rparr>))))))))"

text \<open>\<^verbatim>\<open>str(b)\<close> for a \<^verbatim>\<open>bool\<close>.\<close>

definition str_bool :: "bool \<Rightarrow> string" where
  "str_bool b = (if b then ''True'' else ''False'')"

definition str_or_None :: "string option \<Rightarrow> pyval" where
  "str_or_None x = (case x of None \<Rightarrow> VNone | Some s \<Rightarrow> VStr s)"

text \<open>The dictionary that \<^verbatim>\<open>NearEarthObject.serialize\<close> binds to its local \<^verbatim>\<open>res\<close>.\<close>

definition serialize_res :: "near_earth_object \<Rightarrow> (string \<times> pyval) list" where
  "serialize_res self =
     [(''designation'', str_or_None (designation self)),
      (''name'', str_or_None (name self)),
      (''diameter_km'', VFloat (diameter self)),
      (''potentially_hazardous'', VStr (str_bool (hazardous self)))]"

text \<open>
  \<^verbatim>\<open>NearEarthObject.serialize(self)\<close>: the body is the one assignment to \<^verbatim>\<open>res\<close>, with no
  \<^verbatim>\<open>return\<close>, so the call evaluates to \<^verbatim>\<open>None\<close>.
\<close>

definition NearEarthObject_serialize :: "near_earth_object \<Rightarrow> (string \<times> pyval) list option" where
  "NearEarthObject_serialize self = (let res = serialize_res self in None)"

section \<open>The query engine\<close>

text \<open>
  Modelled from the spec: the query engine (the store's \<^verbatim>\<open>query\<close> method) is not among the
  source files. Section 4.2 of the specification: given the linked approach records and a
  predicate collection, produce the records for which every predicate evaluates true
  (logical AND across all predicates; an empty predicate collection matches every record),
  in the order of the store; section 7: any failure surfaces to the caller. A collection
  is the pair that \<^verbatim>\<open>create_filters\<close> returns, the i-th predicate called with the i-th
  attribute name; every predicate is evaluated, in order.
\<close>

fun all_hold :: "close_approach \<Rightarrow> (attribute_filter \<times> string) list \<Rightarrow> error + bool" where
  "all_hold approach [] = Inr True"
| "all_hold approach ((f, attr) # ps) =
     (case call f approach attr of
        Inl e \<Rightarrow> Inl e
      | Inr b \<Rightarrow> (case all_hold approach ps of Inl e \<Rightarrow> Inl e | Inr r \<Rightarrow> Inr (b \<and> r)))"

fun query ::
  "close_approach list \<Rightarrow> attribute_filter list \<times> string list \<Rightarrow> error + close_approach list" where
  "query [] coll = Inr []"
| "query (approach # rest) coll =
     (case all_hold approach (zip (fst coll) (snd coll)) of
        Inl e \<Rightarrow> Inl e
      | Inr b \<Rightarrow>
          (case query rest coll of
             Inl e \<Rightarrow> Inl e
           | Inr rs \<Rightarrow> Inr (if b then approach # rs else rs)))"

section \<open>The specification's words\<close>

text \<open>
  Section 4.1: for each set option, one predicate, a comparison operator with a reference
  value and a target attribute name; an unset option emits nothing.
\<close>

definition emit :: "cmp_op \<Rightarrow> string \<Rightarrow> pyval option \<Rightarrow> (attribute_filter \<times> string) list" where
  "emit c target x =
     (case x of None \<Rightarrow> [] | Some v \<Rightarrow> [(GetAttribute c v target, target)])"

text \<open>The fixed mapping of section 4.1, option by option.\<close>

definition spec_predicates ::
  "pyval option \<Rightarrow> pyval option \<Rightarrow> pyval option \<Rightarrow> pyval option \<Rightarrow> pyval option \<Rightarrow>
   pyval option \<Rightarrow> pyval option \<Rightarrow> pyval option \<Rightarrow> pyval option \<Rightarrow> pyval option \<Rightarrow>
   (attribute_filter \<times> string) list" where
  "spec_predicates =
     (\<lambda>date start_date end_date distance_min distance_max
        velocity_min velocity_max diameter_min diameter_max hazardous.
      emit Op_eq ''time'' date @
      emit Op_ge ''time'' start_date @
      emit Op_le ''time'' end_date @
      emit Op_ge ''distance'' distance_min @
      emit Op_le ''distance'' distance_max @
      emit Op_ge ''velocity'' velocity_min @
      emit Op_le ''velocity'' velocity_max @
      emit Op_ge ''diameter'' diameter_min @
      emit Op_le ''diameter'' diameter_max @
      emit Op_eq ''hazardous'' hazardous)"

text \<open>Section 3: a diameter is a valid non-negative number or the "unknown" sentinel.\<close>

definition valid_diameter :: "pyfloat \<Rightarrow> bool" where
  "valid_diameter d = (case d of NaN \<Rightarrow> True | Flt r \<Rightarrow> 0 \<le> r | _ \<Rightarrow> False)"

text \<open>
  Rows and records to evaluate on, after scenario 1 of section 8: a row of the object
  433 Eros with a whole-number diameter, a row with neither a name nor a diameter, and an
  approach of 2025-Nov-30 02:18 at 0.39 au and 3.72 km/s, linked to a given object.
\<close>

definition sized_row :: "(string \<times> string option) list" where
  "sized_row =
     [(''pdes'', Some ''433''), (''name'', Some ''Eros''), (''diameter'', Some ''17''),
      (''pha'', Some ''N'')]"

definition unsized_row :: "(string \<times> string option) list" where
  "unsized_row =
     [(''pdes'', Some ''2020 AB''), (''name'', Some []), (''diameter'', Some []),
      (''pha'', Some ''Y'')]"

definition approach_of :: "near_earth_object \<Rightarrow> close_approach" where
  "approach_of n =
     \<lparr>p_designation = ''433'', time = Datetime (Date 2025 11 30) 2 18 0 0,
      distance = Flt (39 / 100), velocity = Flt (93 / 25), neo = Some n\<rparr>"

section \<open>Auxiliary definitions for the proofs\<close>

text \<open>The operator and the target that the loop of \<^verbatim>\<open>create_filters\<close> gives an option name.\<close>

definition option_op :: "string \<Rightarrow> cmp_op" where
  "option_op k =
     (if k = ''date'' \<or> k = ''hazardous'' then Op_eq
      else if k = ''start_date'' \<or> k = ''distance_min'' \<or> k = ''velocity_min''
              \<or> k = ''diameter_min'' then Op_ge
      else Op_le)"

definition option_target :: "string \<Rightarrow> string" where
  "option_target k =
     (if k = ''date'' \<or> k = ''start_date'' \<or> k = ''end_date'' then ''time''
      else if k = ''distance_min'' \<or> k = ''distance_max'' then ''distance''
      else if k = ''velocity_min'' \<or> k = ''velocity_max'' then ''velocity''
      else if k = ''diameter_min'' \<or> k = ''diameter_max'' then ''diameter''
      else ''hazardous'')"

definition pred_of :: "string \<times> pyval \<Rightarrow> attribute_filter \<times> string" where
  "pred_of p =
     (GetAttribute (option_op (fst p)) (snd p) (option_target (fst p)), option_target (fst p))"

section \<open>The predicate builder\<close>

lemma getitem_known:
  "k \<in> set (map fst mapping_param) \<Longrightarrow> getitem mapping_param k = Inr (option_target k)"
  unfolding mapping_param_def option_target_def by auto

lemma filter_for_known:
  "k \<in> set (map fst mapping_param) \<Longrightarrow>
   filter_for res k v = Inr (res @ [GetAttribute (option_op k) v (option_target k)])"
  unfolding mapping_param_def filter_for_def append_GetAttribute_def option_op_def
    option_target_def GetAttribute_def
  by auto

lemma filters_loop_known:
  "fst ` set d \<subseteq> set (map fst mapping_param) \<Longrightarrow>
   filters_loop d res = Inr (res @ map (fst \<circ> pred_of) d)"
proof (induction d arbitrary: res)
  case Nil
  then show ?case by simp
next
  case (Cons p d)
  obtain k v where p: "p = (k, v)" by (cases p)
  from Cons.prems p have k: "k \<in> set (map fst mapping_param)" by auto
  from Cons.prems have d: "fst ` set d \<subseteq> set (map fst mapping_param)" by auto
  show ?case
    using Cons.IH [OF d] filter_for_known [OF k] by (simp add: p pred_of_def)
qed

lemma attrs_for_known:
  "fst ` set d \<subseteq> set (map fst mapping_param) \<Longrightarrow>
   attrs_for d = Inr (map (snd \<circ> pred_of) d)"
proof (induction d)
  case Nil
  then show ?case by simp
next
  case (Cons p d)
  obtain k v where p: "p = (k, v)" by (cases p)
  from Cons.prems p have k: "k \<in> set (map fst mapping_param)" by auto
  from Cons.prems have d: "fst ` set d \<subseteq> set (map fst mapping_param)" by auto
  show ?case
    using Cons.IH [OF d] getitem_known [OF k] by (simp add: p pred_of_def)
qed

lemma not_None_items_keys: "fst ` set (not_None_items d) \<subseteq> fst ` set d"
  by (induction d rule: not_None_items.induct) auto

lemma locals_keys:
  "fst ` set (create_filters_locals d sd ed dmin dmax vmin vmax dimin dimax hz)
     \<subseteq> set (map fst mapping_param)"
  by (simp add: create_filters_locals_def mapping_param_def)

lemma arg_dict_keys:
  "fst ` set (not_None_items (create_filters_locals d sd ed dmin dmax vmin vmax dimin dimax hz))
     \<subseteq> set (map fst mapping_param)"
  using not_None_items_keys locals_keys by (rule subset_trans)

text \<open>The result of \<^verbatim>\<open>create_filters\<close> in closed form: it never raises, and both lists are
  images of the dictionary of the set options.\<close>

lemma create_filters_closed:
  "create_filters d sd ed dmin dmax vmin vmax dimin dimax hz =
     Inr (map (fst \<circ> pred_of)
            (not_None_items (create_filters_locals d sd ed dmin dmax vmin vmax dimin dimax hz)),
          map (snd \<circ> pred_of)
            (not_None_items (create_filters_locals d sd ed dmin dmax vmin vmax dimin dimax hz)))"
  unfolding create_filters_def
  by (simp add: Let_def attrs_for_known [OF arg_dict_keys] filters_loop_known [OF arg_dict_keys])

lemma pred_of_items_Cons:
  "map pred_of (not_None_items ((k, x) # d)) =
     emit (option_op k) (option_target k) x @ map pred_of (not_None_items d)"
  by (cases x) (simp_all add: emit_def pred_of_def)

lemma pred_of_locals:
  "map pred_of
     (not_None_items (create_filters_locals d sd ed dmin dmax vmin vmax dimin dimax hz))
     = spec_predicates d sd ed dmin dmax vmin vmax dimin dimax hz"
  unfolding create_filters_locals_def spec_predicates_def pred_of_items_Cons
  by (simp add: option_op_def option_target_def)

lemma length_emit: "length (emit c t x) = length (filter (\<lambda>x. x \<noteq> None) [x])"
  by (cases x) (simp_all add: emit_def)

lemma length_spec_predicates:
  "length (spec_predicates d sd ed dmin dmax vmin vmax dimin dimax hz) =
     length (filter (\<lambda>x. x \<noteq> None) [d, sd, ed, dmin, dmax, vmin, vmax, dimin, dimax, hz])"
proof -
  have "length (spec_predicates d sd ed dmin dmax vmin vmax dimin dimax hz) =
     length (filter (\<lambda>x. x \<noteq> None)
       ([d] @ [sd] @ [ed] @ [dmin] @ [dmax] @ [vmin] @ [vmax] @ [dimin] @ [dimax] @ [hz]))"
    unfolding spec_predicates_def by (simp only: length_append filter_append length_emit)
  then show ?thesis by (simp only: append_Cons append_Nil)
qed

lemma call_GetAttribute:
  "call (GetAttribute c v attr) approach attr_interest =
     (case GetAttribute_get approach attr_interest of
        Inl e \<Rightarrow> Inl e
      | Inr x \<Rightarrow> py_compare c x v)"
  by (simp add: call_def get_def GetAttribute_def AttributeFilter_def split: sum.splits)

lemma GetAttribute_get_time:
  "GetAttribute_get approach ''time'' = Inr (VDate (datetime_date (time approach)))"
  by (simp add: GetAttribute_get_def getattr_def call_date_def)

text \<open>
  C1. For every call of \<^verbatim>\<open>create_filters\<close>, each option that is set (a non-\<^verbatim>\<open>None\<close> value,
  \<^verbatim>\<open>False\<close> for \<^verbatim>\<open>hazardous\<close> included) emits exactly one predicate, with the operator and
  the target attribute of the fixed mapping (\<^verbatim>\<open>date\<close>: equality on \<^verbatim>\<open>time\<close>;
  \<^verbatim>\<open>start_date\<close>, \<^verbatim>\<open>end_date\<close>: at least, at most on \<^verbatim>\<open>time\<close>; the \<^verbatim>\<open>_min\<close> and \<^verbatim>\<open>_max\<close>
  options: at least, at most on \<^verbatim>\<open>distance\<close>, \<^verbatim>\<open>velocity\<close>, \<^verbatim>\<open>diameter\<close>; \<^verbatim>\<open>hazardous\<close>:
  equality on \<^verbatim>\<open>hazardous\<close>), and an unset option emits none: the call returns the
  predicates and the attribute names of \<open>spec_predicates\<close>, as many as there are set
  options. A predicate evaluated on \<^verbatim>\<open>time\<close> compares the date of the approach's time,
  the time of day dropped.
\<close>

theorem create_filters_one_predicate_per_option:
  "create_filters d sd ed dmin dmax vmin vmax dimin dimax hz =
     Inr (map fst (spec_predicates d sd ed dmin dmax vmin vmax dimin dimax hz),
          map snd (spec_predicates d sd ed dmin dmax vmin vmax dimin dimax hz))
   \<and> length (spec_predicates d sd ed dmin dmax vmin vmax dimin dimax hz) =
       length (filter (\<lambda>x. x \<noteq> None) [d, sd, ed, dmin, dmax, vmin, vmax, dimin, dimax, hz])
   \<and> call (GetAttribute c v attr) approach ''time'' =
       py_compare c (VDate (datetime_date (time approach))) v"
proof -
  have "create_filters d sd ed dmin dmax vmin vmax dimin dimax hz =
     Inr (map fst (spec_predicates d sd ed dmin dmax vmin vmax dimin dimax hz),
          map snd (spec_predicates d sd ed dmin dmax vmin vmax dimin dimax hz))"
    unfolding create_filters_closed
    by (simp only: map_map [symmetric] pred_of_locals)
  moreover have "length (spec_predicates d sd ed dmin dmax vmin vmax dimin dimax hz) =
       length (filter (\<lambda>x. x \<noteq> None) [d, sd, ed, dmin, dmax, vmin, vmax, dimin, dimax, hz])"
    by (rule length_spec_predicates)
  moreover have "call (GetAttribute c v attr) approach ''time'' =
       py_compare c (VDate (datetime_date (time approach))) v"
    by (simp add: call_GetAttribute GetAttribute_get_time)
  ultimately show ?thesis by blast
qed

text \<open>
  C9. Whatever options are set, the two lists that \<^verbatim>\<open>create_filters\<close> returns have the
  same length, that of the dictionary of the set options, and correspond by position: the
  i-th predicate is the one the loop builds for the i-th set option, in insertion order,
  and the i-th attribute name is the entry of \<^verbatim>\<open>mapping_param\<close> for that same option.
\<close>

theorem create_filters_positional:
  assumes "create_filters d sd ed dmin dmax vmin vmax dimin dimax hz = Inr (fs, attrs)"
  shows "length fs = length attrs
    \<and> length fs =
        length (not_None_items (create_filters_locals d sd ed dmin dmax vmin vmax dimin dimax hz))
    \<and> (\<forall>i < length fs. \<exists>k v.
          not_None_items (create_filters_locals d sd ed dmin dmax vmin vmax dimin dimax hz) ! i
            = (k, v)
          \<and> filter_for [] k v = Inr [fs ! i]
          \<and> getitem mapping_param k = Inr (attrs ! i))"
proof -
  let ?A = "not_None_items (create_filters_locals d sd ed dmin dmax vmin vmax dimin dimax hz)"
  from assms have fs: "fs = map (fst \<circ> pred_of) ?A" and attrs: "attrs = map (snd \<circ> pred_of) ?A"
    by (simp_all add: create_filters_closed)
  have "\<exists>k v. ?A ! i = (k, v) \<and> filter_for [] k v = Inr [fs ! i]
          \<and> getitem mapping_param k = Inr (attrs ! i)" if i: "i < length fs" for i
  proof -
    from i fs have iA: "i < length ?A" by simp
    obtain k v where kv: "?A ! i = (k, v)" by (cases "?A ! i")
    from iA have "?A ! i \<in> set ?A" by simp
    with kv have "k \<in> fst ` set ?A" by force
    with arg_dict_keys have k: "k \<in> set (map fst mapping_param)" by blast
    have "filter_for [] k v = Inr [fs ! i]"
      using filter_for_known [OF k, of "[]" v] iA kv by (simp add: fs pred_of_def)
    moreover have "getitem mapping_param k = Inr (attrs ! i)"
      using getitem_known [OF k] iA kv by (simp add: attrs pred_of_def)
    ultimately show ?thesis using kv by blast
  qed
  then show ?thesis by (simp add: fs attrs)
qed

theorem create_filters_positional_witness:
  "create_filters None None None None (Some (VFloat (Flt (1 / 2)))) None None None None
       (Some (VBool False))
     = Inr ([GetAttribute Op_le (VFloat (Flt (1 / 2))) ''distance'',
             GetAttribute Op_eq (VBool False) ''hazardous''],
            [''distance'', ''hazardous''])
   \<and> length [GetAttribute Op_le (VFloat (Flt (1 / 2))) ''distance'',
              GetAttribute Op_eq (VBool False) ''hazardous'']
       = length [''distance'', ''hazardous'']
   \<and> (\<exists>k v.
         not_None_items (create_filters_locals None None None None (Some (VFloat (Flt (1 / 2))))
            None None None None (Some (VBool False))) ! 1 = (k, v)
         \<and> filter_for [] k v = Inr [GetAttribute Op_eq (VBool False) ''hazardous'']
         \<and> getitem mapping_param k = Inr ''hazardous'')"
proof -
  let ?fs = "[GetAttribute Op_le (VFloat (Flt (1 / 2))) ''distance'',
              GetAttribute Op_eq (VBool False) ''hazardous'']"
  let ?attrs = "[''distance'', ''hazardous'']"
  have h: "create_filters None None None None (Some (VFloat (Flt (1 / 2)))) None None None None
       (Some (VBool False)) = Inr (?fs, ?attrs)"
    by (simp add: create_filters_closed create_filters_locals_def pred_of_def option_op_def
        option_target_def GetAttribute_def)
  note t = create_filters_positional [OF h]
  from t have "\<forall>i < length ?fs. \<exists>k v.
          not_None_items (create_filters_locals None None None None (Some (VFloat (Flt (1 / 2))))
            None None None None (Some (VBool False))) ! i = (k, v)
          \<and> filter_for [] k v = Inr [?fs ! i]
          \<and> getitem mapping_param k = Inr (?attrs ! i)"
    by blast
  from this [THEN spec, of 1] have "\<exists>k v.
         not_None_items (create_filters_locals None None None None (Some (VFloat (Flt (1 / 2))))
            None None None None (Some (VBool False))) ! 1 = (k, v)
         \<and> filter_for [] k v = Inr [GetAttribute Op_eq (VBool False) ''hazardous'']
         \<and> getitem mapping_param k = Inr ''hazardous''"
    by simp
  with h show ?thesis by simp
qed

section \<open>Attribute resolution\<close>

lemma create_filters_cls:
  assumes "create_filters d sd ed dmin dmax vmin vmax dimin dimax hz = Inr (fs, attrs)"
    and "f \<in> set fs"
  shows "cls f = GetAttribute_class"
proof -
  from assms(1) have "fs = map (fst \<circ> pred_of)
      (not_None_items (create_filters_locals d sd ed dmin dmax vmin vmax dimin dimax hz))"
    by (simp add: create_filters_closed)
  with assms(2) obtain p where "f = fst (pred_of p)" by auto
  then show ?thesis by (simp add: pred_of_def GetAttribute_def)
qed

lemma GetAttribute_get_neo:
  "neo approach = Some n \<Longrightarrow> a \<in> set [''hazardous'', ''diameter''] \<Longrightarrow>
   GetAttribute_get approach a = getattr (Obj_neo n) a"
  by (auto simp: GetAttribute_get_def approach_neo_def split: sum.splits)

lemma GetAttribute_get_approach:
  "a \<notin> set [''hazardous'', ''diameter''] \<Longrightarrow> a \<noteq> ''time'' \<Longrightarrow>
   GetAttribute_get approach a = getattr (Obj_approach approach) a"
  by (auto simp: GetAttribute_get_def split: sum.splits)

text \<open>
  C4. For every predicate that the builder produces and every linked record, the
  attribute is resolved by its name: \<^verbatim>\<open>hazardous\<close> and \<^verbatim>\<open>diameter\<close> are read from the
  linked \<^verbatim>\<open>NearEarthObject\<close> (\<^verbatim>\<open>approach.neo\<close>), every other attribute (\<^verbatim>\<open>time\<close>, of which
  the date is taken, \<^verbatim>\<open>distance\<close>, \<^verbatim>\<open>velocity\<close>) from the \<^verbatim>\<open>CloseApproach\<close> itself.
\<close>

theorem attribute_resolution:
  assumes "create_filters d sd ed dmin dmax vmin vmax dimin dimax hz = Inr (fs, attrs)"
    and "f \<in> set fs"
    and "neo approach = Some n"
  shows "get f approach ''hazardous'' = Inr (VBool (hazardous n))
    \<and> get f approach ''diameter'' = Inr (VFloat (diameter n))
    \<and> get f approach ''time'' = Inr (VDate (datetime_date (time approach)))
    \<and> get f approach ''distance'' = Inr (VFloat (distance approach))
    \<and> get f approach ''velocity'' = Inr (VFloat (velocity approach))
    \<and> (\<forall>a. a \<in> set [''hazardous'', ''diameter''] \<longrightarrow>
          get f approach a = getattr (Obj_neo n) a)
    \<and> (\<forall>a. a \<notin> set [''hazardous'', ''diameter''] \<and> a \<noteq> ''time'' \<longrightarrow>
          get f approach a = getattr (Obj_approach approach) a)"
proof -
  have g: "get f approach a = GetAttribute_get approach a" for a
    using create_filters_cls [OF assms(1,2)] by (simp add: get_def)
  have "GetAttribute_get approach ''hazardous'' = Inr (VBool (hazardous n))"
    using assms(3) by (simp add: GetAttribute_get_neo getattr_def)
  moreover have "GetAttribute_get approach ''diameter'' = Inr (VFloat (diameter n))"
    using assms(3) by (simp add: GetAttribute_get_neo getattr_def)
  moreover have "GetAttribute_get approach ''distance'' = Inr (VFloat (distance approach))"
    by (simp add: GetAttribute_get_approach getattr_def)
  moreover have "GetAttribute_get approach ''velocity'' = Inr (VFloat (velocity approach))"
    by (simp add: GetAttribute_get_approach getattr_def)
  ultimately show ?thesis
    using GetAttribute_get_neo [OF assms(3)] GetAttribute_get_approach [of _ approach]
    by (simp only: g GetAttribute_get_time) blast
qed

theorem attribute_resolution_witness:
  "create_filters None None None None None None None None None (Some (VBool False))
     = Inr ([GetAttribute Op_eq (VBool False) ''hazardous''], [''hazardous''])
   \<and> GetAttribute Op_eq (VBool False) ''hazardous''
       \<in> set [GetAttribute Op_eq (VBool False) ''hazardous'']
   \<and> neo (approach_of \<lparr>designation = Some ''433'', name = Some ''Eros'',
        diameter = Flt (421 / 25), hazardous = False, approaches = []\<rparr>)
       = Some \<lparr>designation = Some ''433'', name = Some ''Eros'',
        diameter = Flt (421 / 25), hazardous = False, approaches = []\<rparr>
   \<and> get (GetAttribute Op_eq (VBool False) ''hazardous'')
        (approach_of \<lparr>designation = Some ''433'', name = Some ''Eros'',
        diameter = Flt (421 / 25), hazardous = False, approaches = []\<rparr>) ''hazardous''
       = Inr (VBool False)
   \<and> get (GetAttribute Op_eq (VBool False) ''hazardous'')
        (approach_of \<lparr>designation = Some ''433'', name = Some ''Eros'',
        diameter = Flt (421 / 25), hazardous = False, approaches = []\<rparr>) ''diameter''
       = Inr (VFloat (Flt (421 / 25)))
   \<and> get (GetAttribute Op_eq (VBool False) ''hazardous'')
        (approach_of \<lparr>designation = Some ''433'', name = Some ''Eros'',
        diameter = Flt (421 / 25), hazardous = False, approaches = []\<rparr>) ''time''
       = Inr (VDate (Date 2025 11 30))"
proof -
  let ?n = "\<lparr>designation = Some ''433'', name = Some ''Eros'',
        diameter = Flt (421 / 25), hazardous = False, approaches = []\<rparr>"
  let ?f = "GetAttribute Op_eq (VBool False) ''hazardous''"
  have h1: "create_filters None None None None None None None None None (Some (VBool False))
     = Inr ([?f], [''hazardous''])"
    by (simp add: create_filters_closed create_filters_locals_def pred_of_def option_op_def
        option_target_def)
  have h2: "?f \<in> set [?f]" by simp
  have h3: "neo (approach_of ?n) = Some ?n" by (simp add: approach_of_def)
  from attribute_resolution [OF h1 h2 h3] h1 h3
  show ?thesis by (simp add: approach_of_def datetime_date_def)
qed

text \<open>
  C6. Evaluating a predicate whose attribute has no resolution rule, that is, invoking the
  \<^verbatim>\<open>get\<close> of the base class \<^verbatim>\<open>AttributeFilter\<close>, fails with \<^verbatim>\<open>UnsupportedCriterionError\<close>,
  and the call of the predicate passes that error to its caller.
\<close>

theorem AttributeFilter_unsupported_criterion:
  "AttributeFilter_get approach attr_interest = Inl UnsupportedCriterionError
   \<and> get (AttributeFilter c v) approach attr_interest = Inl UnsupportedCriterionError
   \<and> call (AttributeFilter c v) approach attr_interest = Inl UnsupportedCriterionError"
  by (simp add: AttributeFilter_get_def get_def call_def AttributeFilter_def)

text \<open>
  C10. What a \<^verbatim>\<open>GetAttribute\<close> predicate does is independent of the \<^verbatim>\<open>attr\<close> argument of
  its constructor: two filters built with the same operator and reference value and any
  two \<^verbatim>\<open>attr\<close> arguments give the same result on the same approach and \<^verbatim>\<open>attr_interest\<close>,
  the compared attribute being the one that \<^verbatim>\<open>attr_interest\<close> names at the call.
\<close>

theorem GetAttribute_attr_irrelevant:
  "call (GetAttribute c v attr1) approach attr_interest =
     call (GetAttribute c v attr2) approach attr_interest
   \<and> call (GetAttribute c v attr1) approach attr_interest =
       (case GetAttribute_get approach attr_interest of
          Inl e \<Rightarrow> Inl e
        | Inr x \<Rightarrow> py_compare c x v)"
  by (simp add: call_GetAttribute)

section \<open>The limiter\<close>

text \<open>
  Within the range of stops that \<^verbatim>\<open>islice\<close> accepts, \<^verbatim>\<open>limit\<close> does what its docstring
  says: the first \<^verbatim>\<open>n\<close> items, or all of them when there are fewer, in their order; and
  every item for \<^verbatim>\<open>0\<close> and for \<^verbatim>\<open>None\<close>.
\<close>

lemma limit_in_range:
  "(0 < n \<and> n \<le> sys_maxsize \<longrightarrow>
      limit xs (Some n) = Inr (take (nat n) xs)
      \<and> length (take (nat n) xs) = min (nat n) (length xs))
   \<and> limit xs (Some 0) = Inr xs
   \<and> limit xs None = Inr xs"
  by (auto simp: limit_def islice_def)

text \<open>
  C2. For every finite sequence, \<^verbatim>\<open>limit(seq, n)\<close> with \<^verbatim>\<open>n > 0\<close> is to yield exactly
  \<^verbatim>\<open>min(n, len(seq))\<close> items in the order of the sequence, as the docstring of \<^verbatim>\<open>limit\<close>
  also says ("The first (at most) n values from the iterator"). The code does not: it
  hands \<^verbatim>\<open>n\<close> to \<^verbatim>\<open>islice\<close> unguarded, and \<^verbatim>\<open>islice\<close> refuses a stop above
  \<^verbatim>\<open>sys.maxsize\<close> (CPython: "Stop argument for islice() must be None or an integer:
  0 <= x <= sys.maxsize."). For a one-item sequence and \<^verbatim>\<open>n = 2 ** 63\<close> the one item is
  due, and \<^verbatim>\<open>limit\<close> raises \<^verbatim>\<open>ValueError\<close>.
\<close>

theorem limit_beyond_maxsize:
  "(0::int) < 2 ^ 63
   \<and> min (nat (2 ^ 63)) (length [7 :: nat]) = 1
   \<and> limit [7 :: nat] (Some (2 ^ 63)) = Inl ValueError"
  by (simp add: limit_def islice_def sys_maxsize_def)

section \<open>The object serializer\<close>

text \<open>
  C8. \<^verbatim>\<open>NearEarthObject.serialize\<close> computes a dictionary with the keys \<^verbatim>\<open>designation\<close>,
  \<^verbatim>\<open>name\<close>, \<^verbatim>\<open>diameter_km\<close> and \<^verbatim>\<open>potentially_hazardous\<close> and does not return it: for every
  object the call returns \<^verbatim>\<open>None\<close>.
\<close>

theorem serialize_returns_None:
  "NearEarthObject_serialize self = None
   \<and> map fst (serialize_res self) =
       [''designation'', ''name'', ''diameter_km'', ''potentially_hazardous'']"
  by (simp add: NearEarthObject_serialize_def serialize_res_def)

section \<open>Constructed objects\<close>

lemma and_then_Inr: "(and_then r f = Inr y) = (\<exists>x. r = Inr x \<and> f x = Inr y)"
  by (cases r) (simp_all add: and_then_def)

lemma and_then_simps: "and_then (Inr x) f = f x" "and_then (Inl e) f = Inl e"
  by (simp_all add: and_then_def)

lemma len_Inr: "(len x = Inr l) = (\<exists>s. x = Some s \<and> l = length s)"
  by (cases x) (auto simp: len_def)

lemma py_float_nan: "py_float float_elsewhere ''nan'' = Inr NaN"
  by (simp add: py_float_def)

lemma py_float_seventeen: "py_float float_elsewhere ''17'' = Inr (Flt 17)"
  by (simp add: py_float_def whole_number_def is_digit_def digit_value_def nat_of_digits_def)

lemma py_float_minus_one: "py_float float_elsewhere ''-1'' = Inr (Flt (- 1))"
  by (simp add: py_float_def whole_number_def is_digit_def digit_value_def nat_of_digits_def)

lemma NearEarthObject_init_Inr:
  assumes "NearEarthObject_init float_elsewhere info = Inr n"
  shows "\<exists>s pha. getitem info ''diameter'' = Inr (Some s)
           \<and> (if s = [] then Inr NaN else py_float float_elsewhere s) = Inr (diameter n)
           \<and> getitem info ''pha'' = Inr pha
           \<and> hazardous n = (pha = Some ''Y'')"
proof -
  from assms obtain pdes nv dm dl dv pha where
    dm: "getitem info ''diameter'' = Inr dm" and dl: "len dm = Inr dl"
    and dv: "(if dl = 0 then py_float float_elsewhere ''nan''
              else and_then (getitem info ''diameter'') (float_of float_elsewhere)) = Inr dv"
    and pha: "getitem info ''pha'' = Inr pha"
    and n: "n = \<lparr>designation = pdes, name = nv, diameter = dv,
            hazardous = (if pha = Some ''Y'' then True else False), approaches = []\<rparr>"
    unfolding NearEarthObject_init_def and_then_Inr by blast
  from dl obtain s where s: "dm = Some s" "dl = length s" by (auto simp: len_Inr)
  from dv dm s have "(if s = [] then Inr NaN else py_float float_elsewhere s) = Inr dv"
    by (simp add: and_then_simps float_of_def py_float_nan split: if_splits)
  with dm s pha n show ?thesis by simp
qed

lemma init_sized:
  "NearEarthObject_init float_elsewhere sized_row =
     Inr \<lparr>designation = Some ''433'', name = Some ''Eros'', diameter = Flt 17,
          hazardous = False, approaches = []\<rparr>"
  by (simp add: NearEarthObject_init_def sized_row_def and_then_simps len_def float_of_def
      py_float_seventeen)

text \<open>
  C7, as amended. Every \<^verbatim>\<open>NearEarthObject\<close> constructed from an input row has a diameter
  that is never absent: it is the "unknown" sentinel (not-a-number) when the diameter field
  is empty, and otherwise the float that \<^verbatim>\<open>float\<close> makes of the field, whatever its sign or
  magnitude; its hazardous flag is a strict boolean, \<^verbatim>\<open>True\<close> exactly when the field
  \<^verbatim>\<open>pha\<close> is \<^verbatim>\<open>'Y'\<close>.
\<close>

theorem NearEarthObject_init_fields:
  assumes "NearEarthObject_init float_elsewhere info = Inr n"
  shows "(\<exists>s. getitem info ''diameter'' = Inr (Some s)
            \<and> (if s = [] then diameter n = NaN
                else py_float float_elsewhere s = Inr (diameter n)))
    \<and> hazardous n = (getitem info ''pha'' = Inr (Some ''Y''))"
proof -
  from NearEarthObject_init_Inr [OF assms] obtain s pha where
    s: "getitem info ''diameter'' = Inr (Some s)"
    and d: "(if s = [] then Inr NaN else py_float float_elsewhere s) = Inr (diameter n)"
    and p: "getitem info ''pha'' = Inr pha" and h: "hazardous n = (pha = Some ''Y'')"
    by blast
  from d have "if s = [] then diameter n = NaN
               else py_float float_elsewhere s = Inr (diameter n)"
    by (cases "s = []") auto
  with s have "\<exists>s. getitem info ''diameter'' = Inr (Some s)
            \<and> (if s = [] then diameter n = NaN
                else py_float float_elsewhere s = Inr (diameter n))"
    by blast
  moreover from p h have "hazardous n = (getitem info ''pha'' = Inr (Some ''Y''))" by simp
  ultimately show ?thesis by blast
qed

theorem NearEarthObject_init_fields_witness:
  "(\<forall>float_elsewhere. NearEarthObject_init float_elsewhere sized_row =
      Inr \<lparr>designation = Some ''433'', name = Some ''Eros'', diameter = Flt 17,
           hazardous = False, approaches = []\<rparr>)
   \<and> getitem sized_row ''diameter'' = Inr (Some ''17'')
   \<and> (\<forall>float_elsewhere. py_float float_elsewhere ''17'' = Inr (Flt 17))
   \<and> getitem sized_row ''pha'' \<noteq> Inr (Some ''Y'')"
proof -
  have d: "getitem sized_row ''diameter'' = Inr (Some ''17'')"
    by (simp add: sized_row_def)
  have f: "py_float float_elsewhere ''17'' = Inr (Flt 17)" for float_elsewhere
    using NearEarthObject_init_fields [OF init_sized [of float_elsewhere]] d by simp
  have p: "getitem sized_row ''pha'' \<noteq> Inr (Some ''Y'')"
    using NearEarthObject_init_fields [OF init_sized] by simp
  from init_sized d f p show ?thesis by blast
qed

text \<open>
  As the claim C7 states it, with a diameter that is a valid non-negative number or the
  sentinel, it fails: the constructor converts the field with \<^verbatim>\<open>float\<close> and checks
  nothing, so a row whose diameter field is \<^verbatim>\<open>-1\<close> gives an object of diameter -1.0.
\<close>

theorem negative_diameter_counterexample:
  "(\<forall>float_elsewhere.
      NearEarthObject_init float_elsewhere
        [(''pdes'', Some ''2020 AB''), (''name'', Some []), (''diameter'', Some ''-1''),
         (''pha'', Some ''N'')] =
      Inr \<lparr>designation = Some ''2020 AB'', name = None, diameter = Flt (- 1),
           hazardous = False, approaches = []\<rparr>)
   \<and> \<not> valid_diameter (Flt (- 1))"
  by (simp add: NearEarthObject_init_def and_then_simps len_def float_of_def
      py_float_minus_one valid_diameter_def)

section \<open>The empty predicate collection\<close>

lemma create_filters_spec:
  "create_filters d sd ed dmin dmax vmin vmax dimin dimax hz =
     Inr (map fst (spec_predicates d sd ed dmin dmax vmin vmax dimin dimax hz),
          map snd (spec_predicates d sd ed dmin dmax vmin vmax dimin dimax hz))"
  unfolding create_filters_closed
  by (simp only: map_map [symmetric] pred_of_locals)

lemma spec_predicates_empty:
  "(spec_predicates d sd ed dmin dmax vmin vmax dimin dimax hz = []) =
     (d = None \<and> sd = None \<and> ed = None \<and> dmin = None \<and> dmax = None \<and> vmin = None
      \<and> vmax = None \<and> dimin = None \<and> dimax = None \<and> hz = None)"
proof -
  have "(spec_predicates d sd ed dmin dmax vmin vmax dimin dimax hz = []) =
        (filter (\<lambda>x. x \<noteq> None) [d, sd, ed, dmin, dmax, vmin, vmax, dimin, dimax, hz] = [])"
    using length_spec_predicates [of d sd ed dmin dmax vmin vmax dimin dimax hz]
    by (simp only: length_0_conv [symmetric])
  also have "\<dots> = (\<forall>x \<in> set [d, sd, ed, dmin, dmax, vmin, vmax, dimin, dimax, hz]. x = None)"
    by (simp only: filter_empty_conv not_not)
  also have "\<dots> = (d = None \<and> sd = None \<and> ed = None \<and> dmin = None \<and> dmax = None
      \<and> vmin = None \<and> vmax = None \<and> dimin = None \<and> dimax = None \<and> hz = None)"
    by simp
  finally show ?thesis .
qed

lemma query_no_predicates: "query rs ([], []) = Inr rs"
  by (induction rs) simp_all

lemma float_le_NaN: "float_le x NaN = False" "float_le NaN x = False"
  by (cases x; simp)+

lemma float_eq_NaN: "float_eq x NaN = False" "float_eq NaN x = False"
  by (cases x; simp)+

lemma call_distance_ge_NaN:
  "call (GetAttribute Op_ge (VFloat NaN) attr) approach ''distance'' = Inr False"
  by (simp add: call_GetAttribute GetAttribute_get_def getattr_def py_compare_def float_le_NaN)

lemma query_distance_ge_NaN:
  "query rs ([GetAttribute Op_ge (VFloat NaN) ''distance''], [''distance'']) = Inr []"
  by (induction rs) (simp_all add: call_distance_ge_NaN)

text \<open>
  C3. Called with every option unset, \<^verbatim>\<open>create_filters\<close> returns the empty predicate
  collection. The empty collection matches everything: the query returns every record.
  It is distinguishable from a collection that matches nothing: the builder returns it
  only when no option is set, and a collection that matches no record, such as the one
  built from \<^verbatim>\<open>distance_min = nan\<close>, is not empty.
\<close>

theorem no_options_empty_collection:
  "create_filters None None None None None None None None None None = Inr ([], [])
   \<and> query rs ([], []) = Inr rs
   \<and> (create_filters d sd ed dmin dmax vmin vmax dimin dimax hz = Inr ([], [])) =
       (d = None \<and> sd = None \<and> ed = None \<and> dmin = None \<and> dmax = None \<and> vmin = None
        \<and> vmax = None \<and> dimin = None \<and> dimax = None \<and> hz = None)
   \<and> create_filters None None None (Some (VFloat NaN)) None None None None None None =
       Inr ([GetAttribute Op_ge (VFloat NaN) ''distance''], [''distance''])
   \<and> query rs ([GetAttribute Op_ge (VFloat NaN) ''distance''], [''distance'']) = Inr []"
proof (intro conjI)
  show "create_filters None None None None None None None None None None = Inr ([], [])"
    by (simp add: create_filters_spec spec_predicates_def emit_def)
  show "query rs ([], []) = Inr rs"
    by (rule query_no_predicates)
  have "(create_filters d sd ed dmin dmax vmin vmax dimin dimax hz = Inr ([], [])) =
        (spec_predicates d sd ed dmin dmax vmin vmax dimin dimax hz = [])"
    by (simp add: create_filters_spec)
  then show "(create_filters d sd ed dmin dmax vmin vmax dimin dimax hz = Inr ([], [])) =
       (d = None \<and> sd = None \<and> ed = None \<and> dmin = None \<and> dmax = None \<and> vmin = None
        \<and> vmax = None \<and> dimin = None \<and> dimax = None \<and> hz = None)"
    by (simp only: spec_predicates_empty)
  show "create_filters None None None (Some (VFloat NaN)) None None None None None None =
       Inr ([GetAttribute Op_ge (VFloat NaN) ''distance''], [''distance''])"
    by (simp add: create_filters_spec spec_predicates_def emit_def)
  show "query rs ([GetAttribute Op_ge (VFloat NaN) ''distance''], [''distance'']) = Inr []"
    by (rule query_distance_ge_NaN)
qed

section \<open>Unknown diameters\<close>

lemma py_compare_NaN_eq: "py_compare Op_eq (VFloat NaN) w = Inr False"
  by (cases w) (simp_all add: py_compare_def float_eq_NaN)

lemma py_compare_NaN_ge:
  "number_of v = Some x \<Longrightarrow> py_compare Op_ge (VFloat NaN) v = Inr False"
  by (simp add: py_compare_def float_le_NaN)

lemma py_compare_NaN_le:
  "number_of v = Some x \<Longrightarrow> py_compare Op_le (VFloat NaN) v = Inr False"
  by (simp add: py_compare_def float_le_NaN)

lemma GetAttribute_get_diameter:
  "neo approach = Some n \<Longrightarrow> GetAttribute_get approach ''diameter'' = Inr (VFloat (diameter n))"
  by (simp add: GetAttribute_get_neo getattr_def)

lemma all_hold_member:
  "all_hold approach ps = Inr b \<Longrightarrow> (f, attr) \<in> set ps \<Longrightarrow>
   call f approach attr = Inr False \<Longrightarrow> b = False"
proof (induction ps arbitrary: b)
  case Nil
  then show ?case by simp
next
  case (Cons p ps)
  obtain g a where p: "p = (g, a)" by (cases p)
  from Cons.prems(1) p obtain b1 b2 where
    b1: "call g approach a = Inr b1" and b2: "all_hold approach ps = Inr b2"
    and b: "b = (b1 \<and> b2)"
    by (auto split: sum.splits)
  show ?case
  proof (cases "(f, attr) = (g, a)")
    case True
    with b1 Cons.prems(3) have "b1 = False" by simp
    with b show ?thesis by simp
  next
    case False
    with Cons.prems(2) p have "(f, attr) \<in> set ps" by auto
    from Cons.IH [OF b2 this Cons.prems(3)] b show ?thesis by simp
  qed
qed

lemma query_member:
  "query rs coll = Inr out \<Longrightarrow> approach \<in> set out \<Longrightarrow>
   all_hold approach (zip (fst coll) (snd coll)) = Inr True"
proof (induction rs arbitrary: out)
  case Nil
  then show ?case by simp
next
  case (Cons r rs)
  from Cons.prems(1) obtain b out' where
    b: "all_hold r (zip (fst coll) (snd coll)) = Inr b" and o: "query rs coll = Inr out'"
    and out: "out = (if b then r # out' else out')"
    by (auto split: sum.splits)
  show ?case
  proof (cases "b \<and> approach = r")
    case True
    with b show ?thesis by simp
  next
    case False
    with out Cons.prems(2) have "approach \<in> set out'" by (auto split: if_splits)
    from Cons.IH [OF o this] show ?thesis .
  qed
qed

lemma create_filters_zip:
  "create_filters d sd ed dmin dmax vmin vmax dimin dimax hz = Inr coll \<Longrightarrow>
   zip (fst coll) (snd coll) = spec_predicates d sd ed dmin dmax vmin vmax dimin dimax hz"
  by (auto simp: create_filters_spec zip_map_fst_snd)

lemma diameter_predicate_emitted:
  "dimin = Some v \<or> dimax = Some v \<Longrightarrow>
   (GetAttribute Op_ge v ''diameter'', ''diameter'')
      \<in> set (spec_predicates d sd ed dmin dmax vmin vmax dimin dimax hz)
   \<or> (GetAttribute Op_le v ''diameter'', ''diameter'')
      \<in> set (spec_predicates d sd ed dmin dmax vmin vmax dimin dimax hz)"
  by (auto simp: spec_predicates_def emit_def)

text \<open>
  C5. For every input row whose diameter field is empty, the constructed object stores
  the "unknown" sentinel, not-a-number, and keeps it whatever approaches are then linked
  to it. The sentinel compares equal to no filter value; on every approach linked to an
  object of unknown diameter, a \<^verbatim>\<open>diameter_min\<close> or \<^verbatim>\<open>diameter_max\<close> predicate with a
  numeric reference value returns false; and whenever \<^verbatim>\<open>create_filters\<close> is given such a
  \<^verbatim>\<open>diameter_min\<close> or \<^verbatim>\<open>diameter_max\<close>, whatever the other options, that approach is in
  no result of the query.
\<close>

theorem unknown_diameter_excluded:
  assumes "neo approach = Some m"
    and "diameter m = NaN"
    and "number_of v = Some x"
  shows "(\<forall>float_elsewhere info n linked.
            getitem info ''diameter'' = Inr (Some [])
            \<and> NearEarthObject_init float_elsewhere info = Inr n
            \<longrightarrow> diameter n = NaN \<and> diameter (n\<lparr>approaches := linked\<rparr>) = NaN)
    \<and> py_compare Op_eq (VFloat (diameter m)) w = Inr False
    \<and> call (GetAttribute Op_ge v ''diameter'') approach ''diameter'' = Inr False
    \<and> call (GetAttribute Op_le v ''diameter'') approach ''diameter'' = Inr False
    \<and> (\<forall>d sd ed dmin dmax vmin vmax dimin dimax hz coll rs out.
          create_filters d sd ed dmin dmax vmin vmax dimin dimax hz = Inr coll
          \<and> (dimin = Some v \<or> dimax = Some v)
          \<and> query rs coll = Inr out
          \<longrightarrow> approach \<notin> set out)"
proof -
  have init: "diameter n = NaN \<and> diameter (n\<lparr>approaches := linked\<rparr>) = NaN"
    if "getitem info ''diameter'' = Inr (Some [])"
      and "NearEarthObject_init float_elsewhere info = Inr n"
    for float_elsewhere info n linked
    using NearEarthObject_init_Inr [OF that(2)] that(1) by auto
  have ge: "call (GetAttribute Op_ge v ''diameter'') approach ''diameter'' = Inr False"
    by (simp add: call_GetAttribute GetAttribute_get_diameter [OF assms(1)] assms(2)
        py_compare_NaN_ge [OF assms(3)])
  have le: "call (GetAttribute Op_le v ''diameter'') approach ''diameter'' = Inr False"
    by (simp add: call_GetAttribute GetAttribute_get_diameter [OF assms(1)] assms(2)
        py_compare_NaN_le [OF assms(3)])
  have ex: "approach \<notin> set out"
    if c: "create_filters d sd ed dmin dmax vmin vmax dimin dimax hz = Inr coll"
      and s: "dimin = Some v \<or> dimax = Some v" and q: "query rs coll = Inr out"
    for d sd ed dmin dmax vmin vmax dimin dimax hz coll rs out
  proof
    assume "approach \<in> set out"
    from query_member [OF q this]
    have a: "all_hold approach (spec_predicates d sd ed dmin dmax vmin vmax dimin dimax hz)
               = Inr True"
      by (simp only: create_filters_zip [OF c])
    from diameter_predicate_emitted [OF s, of d sd ed dmin dmax vmin vmax] show False
    proof
      assume "(GetAttribute Op_ge v ''diameter'', ''diameter'')
        \<in> set (spec_predicates d sd ed dmin dmax vmin vmax dimin dimax hz)"
      from all_hold_member [OF a this ge] show False by simp
    next
      assume "(GetAttribute Op_le v ''diameter'', ''diameter'')
        \<in> set (spec_predicates d sd ed dmin dmax vmin vmax dimin dimax hz)"
      from all_hold_member [OF a this le] show False by simp
    qed
  qed
  have i: "\<forall>float_elsewhere info n linked.
            getitem info ''diameter'' = Inr (Some [])
            \<and> NearEarthObject_init float_elsewhere info = Inr n
            \<longrightarrow> diameter n = NaN \<and> diameter (n\<lparr>approaches := linked\<rparr>) = NaN"
    using init by (intro allI impI) (elim conjE)
  have e: "\<forall>d sd ed dmin dmax vmin vmax dimin dimax hz coll rs out.
          create_filters d sd ed dmin dmax vmin vmax dimin dimax hz = Inr coll
          \<and> (dimin = Some v \<or> dimax = Some v)
          \<and> query rs coll = Inr out
          \<longrightarrow> approach \<notin> set out"
    using ex by (intro allI impI) (elim conjE)
  have q: "py_compare Op_eq (VFloat (diameter m)) w = Inr False"
    by (simp add: assms(2) py_compare_NaN_eq)
  from i q ge le e show ?thesis by (intro conjI)
qed

lemma init_unsized:
  "NearEarthObject_init float_elsewhere unsized_row =
     Inr \<lparr>designation = Some ''2020 AB'', name = None, diameter = NaN,
          hazardous = True, approaches = []\<rparr>"
  by (simp add: NearEarthObject_init_def unsized_row_def and_then_simps len_def py_float_nan)

theorem unknown_diameter_excluded_witness:
  "neo (approach_of \<lparr>designation = Some ''2020 AB'', name = None, diameter = NaN,
            hazardous = True, approaches = [0]\<rparr>)
       = Some \<lparr>designation = Some ''2020 AB'', name = None, diameter = NaN,
            hazardous = True, approaches = [0]\<rparr>
   \<and> diameter \<lparr>designation = Some ''2020 AB'', name = None, diameter = NaN,
            hazardous = True, approaches = [0]\<rparr> = NaN
   \<and> number_of (VFloat (Flt 1)) = Some (Flt 1)
   \<and> getitem unsized_row ''diameter'' = Inr (Some [])
   \<and> (\<forall>float_elsewhere. NearEarthObject_init float_elsewhere unsized_row =
         Inr \<lparr>designation = Some ''2020 AB'', name = None, diameter = NaN,
              hazardous = True, approaches = []\<rparr>)
   \<and> call (GetAttribute Op_ge (VFloat (Flt 1)) ''diameter'')
        (approach_of \<lparr>designation = Some ''2020 AB'', name = None, diameter = NaN,
            hazardous = True, approaches = [0]\<rparr>) ''diameter'' = Inr False
   \<and> create_filters None None None None None None None (Some (VFloat (Flt 1))) None None
       = Inr ([GetAttribute Op_ge (VFloat (Flt 1)) ''diameter''], [''diameter''])
   \<and> query [approach_of \<lparr>designation = Some ''2020 AB'', name = None, diameter = NaN,
            hazardous = True, approaches = [0]\<rparr>]
        ([GetAttribute Op_ge (VFloat (Flt 1)) ''diameter''], [''diameter'']) = Inr []"
proof -
  let ?m = "\<lparr>designation = Some ''2020 AB'', name = None, diameter = NaN,
            hazardous = True, approaches = [0]\<rparr>"
  let ?f = "GetAttribute Op_ge (VFloat (Flt 1)) ''diameter''"
  have h1: "neo (approach_of ?m) = Some ?m" by (simp add: approach_of_def)
  have h2: "diameter ?m = NaN" by simp
  have h3: "number_of (VFloat (Flt 1)) = Some (Flt 1)" by simp
  have r: "getitem unsized_row ''diameter'' = Inr (Some [])"
    by (simp add: unsized_row_def)
  note t = unknown_diameter_excluded [OF h1 h2 h3]
  from t have c: "call ?f (approach_of ?m) ''diameter'' = Inr False" by blast
  have cf: "create_filters None None None None None None None (Some (VFloat (Flt 1))) None None
       = Inr ([?f], [''diameter''])"
    by (simp add: create_filters_spec spec_predicates_def emit_def)
  have q: "query [approach_of ?m] ([?f], [''diameter'']) = Inr []"
    by (simp add: c)
  have i: "\<forall>float_elsewhere. NearEarthObject_init float_elsewhere unsized_row =
         Inr \<lparr>designation = Some ''2020 AB'', name = None, diameter = NaN,
              hazardous = True, approaches = []\<rparr>"
    by (simp add: init_unsized)
  from h1 h2 h3 r i c cf q show ?thesis by (intro conjI)
qed

end
